theory Spec2Isabelle
  imports Complex_Main "HOL-Library.AList"
begin

section \<open>Data model of \<open>src/dist/zkproof.js\<close>\<close>

text \<open>
  The module \<open>zkproof.js\<close> generates and verifies simulated zero-knowledge proofs.
  It is embedded here function by function. JavaScript strings are modelled as
  \<^typ>\<open>string\<close>, one character per code unit, compared by content as \<open>===\<close>
  compares strings; thrown exceptions are the \<open>Inl\<close> branch of a sum, and an
  \<open>async\<close> function is modelled by the value its promise settles with.
\<close>

subsection \<open>JSON values, as \<open>JSON.parse\<close> returns them\<close>

text \<open>
  A parsed object is the list of its own enumerable properties in property order; a
  number is kept as a rational (no claim below computes with numbers).
\<close>

datatype json =
    JNull
  | JBool bool
  | JNumber rat
  | JString string
  | JArray "json list"
  | JObject "(string \<times> json) list"

subsection \<open>Records of the module\<close>

text \<open>\<open>ZKCredential\<close>: the fields \<open>zkproof.js\<close> reads from a credential.\<close>

record 'did ZKCredential =
  did :: 'did
  purpose :: string
  commitment :: string
  credential :: string

text \<open>
  \<open>ZKProof\<close>: the object literal returned at lines 27--31. The JavaScript field \<open>proof\<close> is
  named \<open>zkproof\<close> here (as the source's comment at line 26 calls it), because \<open>proof\<close> is
  reserved in Isabelle.
\<close>

record ZKProof =
  code :: string
  zkproof :: string
  commitment :: string

text \<open>\<open>SignedZKProof\<close>: the object literal returned at lines 47--50.\<close>

record SignedZKProof =
  body :: ZKProof
  signature :: string

text \<open>
  The JavaScript \<open>Map\<close> that \<open>verifyZKProof\<close> fills: keys in insertion order, one entry
  per key.
\<close>

type_synonym fields = "(string \<times> json) list"

text \<open>
  A circuit, as \<open>zkproof.js\<close> uses it: the result of \<open>circuit.toCode()\<close> and the method
  \<open>circuit.verify(fields)\<close>. The class itself lives in \<open>./circuit\<close>, which is not part of
  the sources at hand; by section 4.2 of the specification both methods are pure and
  \<open>verify\<close> returns a boolean without failing.
\<close>

record circuit =
  toCode :: string
  verify :: "fields \<Rightarrow> bool"

subsection \<open>Errors\<close>

text \<open>What goes wrong while the payload is decoded (line 81 and line 83).\<close>

datatype decode_failure =
    Base64Error     \<comment> \<open>\<open>Base64.decode\<close> throws\<close>
  | SyntaxError     \<comment> \<open>\<open>JSON.parse\<close> throws\<close>
  | TypeError       \<comment> \<open>\<open>Object.entries(null)\<close> throws\<close>

text \<open>
  Every \<open>throw\<close> that can leave the module, named after the specification's taxonomy.
\<close>

datatype error =
    UnknownProver                      \<comment> \<open>\<open>getDID\<close> throws (line 63)\<close>
  | CredentialNotFound                 \<comment> \<open>\<open>getZKCredential\<close> throws (line 64)\<close>
  | ProverMismatch                     \<comment> \<open>'DID on credential is not matching prover DID' (line 69)\<close>
  | PurposeMismatch                    \<comment> \<open>'Credential is not matching the purpose' (line 72)\<close>
  | CommitmentMismatch                 \<comment> \<open>'Commitment is not matching' (line 76)\<close>
  | CircuitNotFound                    \<comment> \<open>\<open>getCircuit\<close> throws (lines 22 and 78)\<close>
  | CircuitCodeMismatch string string  \<comment> \<open>'Expected circuit code: ..., got ...' (line 24)\<close>
  | PayloadDecodeError decode_failure  \<comment> \<open>lines 81 and 83\<close>
  | SignatureRecoveryError             \<comment> \<open>named by the specification; never thrown by the source\<close>

subsection \<open>The collaborators the module imports\<close>

text \<open>
  \<open>./did\<close>, \<open>./credential\<close>, \<open>./circuit\<close> and the package \<open>js-base64\<close> are not part of the
  sources at hand, and \<open>JSON.parse\<close> is a built-in. They are parameters of the model:
  each either returns a value or throws (\<open>None\<close>).
\<close>

record 'did env =
  getDID :: "string \<Rightarrow> 'did option"
  didEqual :: "'did \<Rightarrow> 'did \<Rightarrow> bool"
  getZKCredential :: "'did \<Rightarrow> string \<Rightarrow> 'did ZKCredential option"
  getCircuit :: "string \<Rightarrow> string \<Rightarrow> circuit option"
  Base64_decode :: "string \<Rightarrow> string option"
  JSON_parse :: "string \<Rightarrow> json option"

section \<open>Built-ins of the language used at lines 82--85\<close>

text \<open>\<open>String(i)\<close> for an array index: its decimal digits.\<close>

fun index_key :: "nat \<Rightarrow> string" where
  "index_key n =
     (if n < 10 then [''0123456789'' ! n]
      else index_key (n div 10) @ [''0123456789'' ! (n mod 10)])"

declare index_key.simps [simp del]

text \<open>
  \<open>Object.entries(v)\<close>: throws a \<open>TypeError\<close> on \<open>null\<close>; a number or a boolean has no own
  enumerable property; a string has one property per code unit and an array one per
  element, keyed by the index; an object yields its own properties.
\<close>

fun Object_entries :: "json \<Rightarrow> (string \<times> json) list option" where
  "Object_entries JNull = None"
| "Object_entries (JBool b) = Some []"
| "Object_entries (JNumber n) = Some []"
| "Object_entries (JString s) =
     Some (map (\<lambda>(i, c). (index_key i, JString [c])) (enumerate 0 s))"
| "Object_entries (JArray vs) =
     Some (map (\<lambda>(i, v). (index_key i, v)) (enumerate 0 vs))"
| "Object_entries (JObject kvs) = Some kvs"

text \<open>
  \<open>fields.set(field, value)\<close>: an existing key keeps its place and takes the new value, a
  new key goes to the end.
\<close>

definition Map_set :: "string \<Rightarrow> json \<Rightarrow> fields \<Rightarrow> fields" where
  "Map_set field v fs = AList.update field v fs"

text \<open>\<open>fields.get(field)\<close>, for the circuits of the examples.\<close>

definition Map_get :: "fields \<Rightarrow> string \<Rightarrow> json option" where
  "Map_get fs field = map_of fs field"

text \<open>Lines 82--85: a fresh \<open>Map\<close>, then one \<open>set\<close> per entry, in order.\<close>

definition fields_of_entries :: "(string \<times> json) list \<Rightarrow> fields" where
  "fields_of_entries es = fold (\<lambda>(field, v) fs. Map_set field v fs) es []"

section \<open>The functions of the module\<close>

text \<open>
  Modelled from the spec: \<open>callApi\<close> of \<open>./lib/tool\<close>, awaited at line 20, is not part of the
  sources at hand. Section 5 of the specification describes it as a suspension point that
  simulates latency; it yields no value and does not fail.
\<close>

definition callApi :: "error + unit" where
  "callApi = Inr ()"

text \<open>\<open>generateZKProof\<close>, lines 17--32.\<close>

definition generateZKProof :: "'did env \<Rightarrow> 'did ZKCredential \<Rightarrow> string \<Rightarrow> error + ZKProof" where
  "generateZKProof env zkCred code' =
     (case callApi of
        Inl e \<Rightarrow> Inl e
      | Inr _ \<Rightarrow>
     (case getCircuit env (purpose zkCred) code' of
        None \<Rightarrow> Inl CircuitNotFound
      | Some circ \<Rightarrow>
          if code' \<noteq> toCode circ then Inl (CircuitCodeMismatch code' (toCode circ))
          else Inr \<lparr>code = code',
                    zkproof = credential zkCred,
                    commitment = ZKCredential.commitment zkCred\<rparr>))"

text \<open>\<open>_generateSignedZKProof\<close>, lines 42--51 (an identifier cannot start with \<open>_\<close> here).\<close>

definition generateSignedZKProof ::
  "'did env \<Rightarrow> 'did ZKCredential \<Rightarrow> string \<Rightarrow> error + SignedZKProof" where
  "generateSignedZKProof env zkCred code' =
     (case generateZKProof env zkCred code' of
        Inl e \<Rightarrow> Inl e
      | Inr b \<Rightarrow> Inr \<lparr>body = b, signature = ''some_signature''\<rparr>)"

text \<open>
  Lines 81--85 of \<open>verifyZKProof\<close>: \<open>Base64.decode\<close>, \<open>JSON.parse\<close>, \<open>Object.entries\<close> and
  the loop that fills the \<open>Map\<close>.
\<close>

definition decode_fields :: "'did env \<Rightarrow> string \<Rightarrow> error + fields" where
  "decode_fields env payload =
     (case Base64_decode env payload of
        None \<Rightarrow> Inl (PayloadDecodeError Base64Error)
      | Some decoded \<Rightarrow>
     (case JSON_parse env decoded of
        None \<Rightarrow> Inl (PayloadDecodeError SyntaxError)
      | Some credObj \<Rightarrow>
     (case Object_entries credObj of
        None \<Rightarrow> Inl (PayloadDecodeError TypeError)
      | Some es \<Rightarrow> Inr (fields_of_entries es))))"

text \<open>\<open>verifyZKProof\<close>, lines 60--87.\<close>

definition verifyZKProof :: "'did env \<Rightarrow> ZKProof \<Rightarrow> string \<Rightarrow> string \<Rightarrow> error + bool" where
  "verifyZKProof env zkProof prover purpose' =
     (case getDID env prover of
        None \<Rightarrow> Inl UnknownProver
      | Some did' \<Rightarrow>
     (case getZKCredential env did' purpose' of
        None \<Rightarrow> Inl CredentialNotFound
      | Some zkCred \<Rightarrow>
          if \<not> didEqual env (did zkCred) did' then Inl ProverMismatch
          else if purpose zkCred \<noteq> purpose' then Inl PurposeMismatch
          else if ZKCredential.commitment zkCred \<noteq> ZKProof.commitment zkProof
            then Inl CommitmentMismatch
          else
     (case getCircuit env purpose' (code zkProof) of
        None \<Rightarrow> Inl CircuitNotFound
      | Some circ \<Rightarrow>
     (case decode_fields env (zkproof zkProof) of
        Inl e \<Rightarrow> Inl e
      | Inr fs \<Rightarrow> Inr (verify circ fs)))))"

text \<open>\<open>_verifySignedZKProof\<close>, lines 96--100.\<close>

definition verifySignedZKProof :: "'did env \<Rightarrow> SignedZKProof \<Rightarrow> string \<Rightarrow> error + bool" where
  "verifySignedZKProof env signed purpose' =
     (let address = ''some_recovered_address''
      in verifyZKProof env (body signed) address purpose')"

section \<open>Call-order instrumentation of \<open>verifyZKProof\<close>\<close>

text \<open>The eight stages of section 4.4 of the specification, in its order.\<close>

datatype stage =
    ResolveDID            \<comment> \<open>line 63\<close>
  | ResolveCredential     \<comment> \<open>line 64\<close>
  | IdentityBinding       \<comment> \<open>lines 68--69\<close>
  | PurposeBinding        \<comment> \<open>lines 71--72\<close>
  | CommitmentBinding     \<comment> \<open>lines 75--76\<close>
  | CircuitResolution     \<comment> \<open>line 78\<close>
  | DecodePayload         \<comment> \<open>lines 81--85\<close>
  | PredicateEvaluation   \<comment> \<open>line 86\<close>

definition all_stages :: "stage list" where
  "all_stages = [ResolveDID, ResolveCredential, IdentityBinding, PurposeBinding,
                 CommitmentBinding, CircuitResolution, DecodePayload, PredicateEvaluation]"

text \<open>The stages up to and including a given one.\<close>

definition stages_upto :: "stage \<Rightarrow> stage list" where
  "stages_upto s = takeWhile (\<lambda>t. t \<noteq> s) all_stages @ [s]"

text \<open>The stage at which \<open>verifyZKProof\<close> throws an error, if it throws it at all.\<close>

fun failing_stage :: "error \<Rightarrow> stage option" where
  "failing_stage UnknownProver = Some ResolveDID"
| "failing_stage CredentialNotFound = Some ResolveCredential"
| "failing_stage ProverMismatch = Some IdentityBinding"
| "failing_stage PurposeMismatch = Some PurposeBinding"
| "failing_stage CommitmentMismatch = Some CommitmentBinding"
| "failing_stage CircuitNotFound = Some CircuitResolution"
| "failing_stage (PayloadDecodeError k) = Some DecodePayload"
| "failing_stage (CircuitCodeMismatch c c') = None"
| "failing_stage SignatureRecoveryError = None"

text \<open>
  \<open>verifyZKProof\<close> again, statement by statement, recording every stage it enters
  together with its outcome.
\<close>

definition verifyZKProof_traced ::
  "'did env \<Rightarrow> ZKProof \<Rightarrow> string \<Rightarrow> string \<Rightarrow> stage list \<times> (error + bool)" where
  "verifyZKProof_traced env zkProof prover purpose' =
     (let t1 = [ResolveDID] in
      case getDID env prover of
        None \<Rightarrow> (t1, Inl UnknownProver)
      | Some did' \<Rightarrow>
     (let t2 = t1 @ [ResolveCredential] in
      case getZKCredential env did' purpose' of
        None \<Rightarrow> (t2, Inl CredentialNotFound)
      | Some zkCred \<Rightarrow>
     (let t3 = t2 @ [IdentityBinding] in
      if \<not> didEqual env (did zkCred) did' then (t3, Inl ProverMismatch)
      else
     (let t4 = t3 @ [PurposeBinding] in
      if purpose zkCred \<noteq> purpose' then (t4, Inl PurposeMismatch)
      else
     (let t5 = t4 @ [CommitmentBinding] in
      if ZKCredential.commitment zkCred \<noteq> ZKProof.commitment zkProof
        then (t5, Inl CommitmentMismatch)
      else
     (let t6 = t5 @ [CircuitResolution] in
      case getCircuit env purpose' (code zkProof) of
        None \<Rightarrow> (t6, Inl CircuitNotFound)
      | Some circ \<Rightarrow>
     (let t7 = t6 @ [DecodePayload] in
      case decode_fields env (zkproof zkProof) of
        Inl e \<Rightarrow> (t7, Inl e)
      | Inr fs \<Rightarrow> (t7 @ [PredicateEvaluation], Inr (verify circ fs)))))))))"

section \<open>A small deployment, after the scenario of section 8 of the specification\<close>

text \<open>The circuit \<open>AGE_GTE_18\<close>: the field \<open>age\<close> is a number, at least 18.\<close>

definition age_circuit :: circuit where
  "age_circuit =
     \<lparr>toCode = ''AGE_GTE_18'',
      verify = (\<lambda>fs. case Map_get fs ''age'' of Some (JNumber n) \<Rightarrow> 18 \<le> n | _ \<Rightarrow> False)\<rparr>"

text \<open>A circuit that asks whether the field \<open>0\<close> is present.\<close>

definition index_circuit :: circuit where
  "index_circuit =
     \<lparr>toCode = ''HAS_FIELD_0'',
      verify = (\<lambda>fs. Map_get fs ''0'' \<noteq> None)\<rparr>"

text \<open>The stored credential; its payload is the Base64 text of \<open>{"age":25}\<close>.\<close>

definition age_cred :: "string ZKCredential" where
  "age_cred =
     \<lparr>did = ''did:ex:1'', purpose = ''age-check'', commitment = ''C1'',
      credential = ''eyJhZ2UiOjI1fQ==''\<rparr>"

text \<open>
  The registry holds the two circuits under their codes, and the first one also under a
  stale code. The two decoders are the finite parts of Base64 and of JSON that the
  examples need; the text \<open>{age\<close> is not JSON.
\<close>

definition demo_env :: "string env" where
  \<open>demo_env =
     \<lparr>getDID = map_of [(''0xabc'', ''did:ex:1''), (''some_recovered_address'', ''did:ex:1'')],
      didEqual = (=),
      getZKCredential = (\<lambda>d p. if d = ''did:ex:1'' \<and> p = ''age-check'' then Some age_cred else None),
      getCircuit = (\<lambda>p c.
         if p = ''age-check'' \<and> (c = ''AGE_GTE_18'' \<or> c = ''AGE_GTE_18_V0'') then Some age_circuit
         else if p = ''age-check'' \<and> c = ''HAS_FIELD_0'' then Some index_circuit
         else None),
      Base64_decode = map_of
        [(''eyJhZ2UiOjI1fQ=='', ''{"age":25}''),
         (''eyJhZ2UiOjEwfQ=='', ''{"age":10}''),
         (''ImEi'', ''"a"''),
         (''bnVsbA=='', ''null''),
         (''NQ=='', ''5''),
         (''dHJ1ZQ=='', ''true''),
         (''e2FnZQ=='', ''{age'')],
      JSON_parse = map_of
        [(''{"age":25}'', JObject [(''age'', JNumber 25)]),
         (''{"age":10}'', JObject [(''age'', JNumber 10)]),
         (''"a"'', JString ''a''),
         (''null'', JNull),
         (''5'', JNumber 5),
         (''true'', JBool True)]\<rparr>\<close>

text \<open>The same deployment with another payload stored in the credential.\<close>

definition demo_env_other_blob :: "string env" where
  "demo_env_other_blob =
     demo_env\<lparr>getZKCredential := (\<lambda>d p.
        if d = ''did:ex:1'' \<and> p = ''age-check''
        then Some (age_cred\<lparr>credential := ''eyJhZ2UiOjEwfQ==''\<rparr>) else None)\<rparr>"

text \<open>A store keyed by the DID alone: it hands out the credential for any purpose.\<close>

definition loose_env :: "string env" where
  "loose_env =
     demo_env\<lparr>getZKCredential := (\<lambda>d p. if d = ''did:ex:1'' then Some age_cred else None)\<rparr>"

section \<open>Predicates used in the statements\<close>

text \<open>
  A payload is undecodable when \<open>Base64.decode\<close> throws on it or \<open>JSON.parse\<close> throws
  on the decoded text.
\<close>

definition undecodable :: "'did env \<Rightarrow> string \<Rightarrow> bool" where
  "undecodable env payload =
     (case Base64_decode env payload of
        None \<Rightarrow> True
      | Some decoded \<Rightarrow> JSON_parse env decoded = None)"

text \<open>Two credential records that differ at most in the stored payload.\<close>

definition same_but_payload :: "'did ZKCredential \<Rightarrow> 'did ZKCredential \<Rightarrow> bool" where
  "same_but_payload c1 c2 \<longleftrightarrow>
     did c1 = did c2 \<and> purpose c1 = purpose c2 \<and>
     ZKCredential.commitment c1 = ZKCredential.commitment c2"

section \<open>Auxiliary facts\<close>

lemma stages_upto_simps:
  "stages_upto ResolveDID = [ResolveDID]"
  "stages_upto ResolveCredential = [ResolveDID, ResolveCredential]"
  "stages_upto IdentityBinding = [ResolveDID, ResolveCredential, IdentityBinding]"
  "stages_upto PurposeBinding = [ResolveDID, ResolveCredential, IdentityBinding, PurposeBinding]"
  "stages_upto CommitmentBinding =
     [ResolveDID, ResolveCredential, IdentityBinding, PurposeBinding, CommitmentBinding]"
  "stages_upto CircuitResolution =
     [ResolveDID, ResolveCredential, IdentityBinding, PurposeBinding, CommitmentBinding,
      CircuitResolution]"
  "stages_upto DecodePayload =
     [ResolveDID, ResolveCredential, IdentityBinding, PurposeBinding, CommitmentBinding,
      CircuitResolution, DecodePayload]"
  "stages_upto PredicateEvaluation = all_stages"
  by (simp_all add: stages_upto_def all_stages_def)

lemma decode_fields_error:
  "decode_fields env payload = Inl e \<Longrightarrow> \<exists>k. e = PayloadDecodeError k"
  by (auto simp: decode_fields_def split: option.splits)

lemma undecodable_decode_fields:
  "undecodable env payload \<Longrightarrow> \<exists>k. decode_fields env payload = Inl (PayloadDecodeError k)"
  by (auto simp: undecodable_def decode_fields_def split: option.splits)

lemma decode_fields_store [simp]:
  "decode_fields (env\<lparr>getZKCredential := store'\<rparr>) payload = decode_fields env payload"
  by (simp add: decode_fields_def split: option.splits)

section \<open>Generation followed by verification\<close>

text \<open>
  Claim C1. Let generation succeed for a credential and a code. Let the prover address
  resolve to the credential's DID, let the store hold this credential under its DID and
  purpose, let the DID equal itself, and let the credential's payload decode to the
  original field mapping. Then verifying the generated proof for the credential's
  purpose returns exactly what the circuit resolved for (purpose, code) returns on the
  original field mapping.
\<close>

theorem generate_verify_roundtrip:
  assumes "generateZKProof env zkCred code' = Inr zkProof"
    and "getDID env prover = Some (did zkCred)"
    and "getZKCredential env (did zkCred) (purpose zkCred) = Some zkCred"
    and "didEqual env (did zkCred) (did zkCred)"
    and "decode_fields env (credential zkCred) = Inr originalFields"
  shows "\<exists>circ. getCircuit env (purpose zkCred) code' = Some circ \<and>
           verifyZKProof env zkProof prover (purpose zkCred) = Inr (verify circ originalFields)"
  using assms
  by (auto simp: generateZKProof_def verifyZKProof_def callApi_def split: option.splits if_splits)

theorem generate_verify_roundtrip_witness:
  "generateZKProof demo_env age_cred ''AGE_GTE_18'' =
     Inr \<lparr>code = ''AGE_GTE_18'', zkproof = ''eyJhZ2UiOjI1fQ=='', commitment = ''C1''\<rparr> \<and>
   verifyZKProof demo_env \<lparr>code = ''AGE_GTE_18'', zkproof = ''eyJhZ2UiOjI1fQ=='', commitment = ''C1''\<rparr>
     ''0xabc'' ''age-check'' = Inr True"
proof -
  have g: "generateZKProof demo_env age_cred ''AGE_GTE_18'' =
     Inr \<lparr>code = ''AGE_GTE_18'', zkproof = ''eyJhZ2UiOjI1fQ=='', commitment = ''C1''\<rparr>"
    by (simp add: generateZKProof_def callApi_def demo_env_def age_cred_def age_circuit_def)
  have d: "decode_fields demo_env (credential age_cred) = Inr [(''age'', JNumber 25)]"
    by (simp add: decode_fields_def demo_env_def age_cred_def fields_of_entries_def Map_set_def)
  have a: "getDID demo_env ''0xabc'' = Some (did age_cred)"
    by (simp add: demo_env_def age_cred_def)
  have s: "getZKCredential demo_env (did age_cred) (purpose age_cred) = Some age_cred"
    by (simp add: demo_env_def age_cred_def)
  have e: "didEqual demo_env (did age_cred) (did age_cred)"
    by (simp add: demo_env_def)
  from generate_verify_roundtrip [OF g a s e d]
  have "verifyZKProof demo_env
          \<lparr>code = ''AGE_GTE_18'', zkproof = ''eyJhZ2UiOjI1fQ=='', commitment = ''C1''\<rparr>
          ''0xabc'' (purpose age_cred) = Inr True"
    by (simp add: demo_env_def age_cred_def age_circuit_def Map_get_def)
  with g show ?thesis by (simp add: age_cred_def)
qed

section \<open>The order of the stages of verification\<close>

text \<open>
  Claim C2. \<open>verifyZKProof\<close> runs its eight stages in the order DID resolution,
  credential lookup, identity binding, purpose binding, commitment binding, circuit
  resolution, payload decode, predicate evaluation, and the first stage that fails ends
  the run. The recorded run \<open>run\<close> has the outcome of \<open>verifyZKProof\<close>; a boolean
  comes after all eight stages, in this order, and an error comes with exactly the
  stages up to the one that raises it. Stage by stage: each failure, the earlier stages
  having passed, gives that stage's error and the stages up to it. In particular, when
  the credential's purpose differs from the purpose argument the outcome is
  \<open>PurposeMismatch\<close>, the circuit resolution is not among the stages entered, and
  the outcome is the same whatever the circuit registry is.
\<close>

theorem verify_stage_order:
  fixes env :: "'did env" and zkProof :: ZKProof and prover purpose' :: string
  defines "run \<equiv> verifyZKProof_traced env zkProof prover purpose'"
  shows
  "(case run of
      (tr, Inr b) \<Rightarrow> tr = all_stages \<and> verifyZKProof env zkProof prover purpose' = Inr b
    | (tr, Inl e) \<Rightarrow>
        (\<exists>s. failing_stage e = Some s \<and> tr = stages_upto s) \<and>
        verifyZKProof env zkProof prover purpose' = Inl e) \<and>
   (getDID env prover = None \<longrightarrow>
      run = (stages_upto ResolveDID, Inl UnknownProver)) \<and>
   (getDID env prover = Some d \<and> getZKCredential env d purpose' = None \<longrightarrow>
      run = (stages_upto ResolveCredential, Inl CredentialNotFound)) \<and>
   (getDID env prover = Some d \<and> getZKCredential env d purpose' = Some zkCred \<and>
    \<not> didEqual env (did zkCred) d \<longrightarrow>
      run = (stages_upto IdentityBinding, Inl ProverMismatch)) \<and>
   (getDID env prover = Some d \<and> getZKCredential env d purpose' = Some zkCred \<and>
    didEqual env (did zkCred) d \<and> purpose zkCred \<noteq> purpose' \<longrightarrow>
      run = (stages_upto PurposeBinding, Inl PurposeMismatch) \<and>
      CircuitResolution \<notin> set (fst run) \<and>
      verifyZKProof (env\<lparr>getCircuit := registry'\<rparr>) zkProof prover purpose'
        = Inl PurposeMismatch) \<and>
   (getDID env prover = Some d \<and> getZKCredential env d purpose' = Some zkCred \<and>
    didEqual env (did zkCred) d \<and> purpose zkCred = purpose' \<and>
    ZKCredential.commitment zkCred \<noteq> ZKProof.commitment zkProof \<longrightarrow>
      run = (stages_upto CommitmentBinding, Inl CommitmentMismatch)) \<and>
   (getDID env prover = Some d \<and> getZKCredential env d purpose' = Some zkCred \<and>
    didEqual env (did zkCred) d \<and> purpose zkCred = purpose' \<and>
    ZKCredential.commitment zkCred = ZKProof.commitment zkProof \<and>
    getCircuit env purpose' (code zkProof) = None \<longrightarrow>
      run = (stages_upto CircuitResolution, Inl CircuitNotFound)) \<and>
   (getDID env prover = Some d \<and> getZKCredential env d purpose' = Some zkCred \<and>
    didEqual env (did zkCred) d \<and> purpose zkCred = purpose' \<and>
    ZKCredential.commitment zkCred = ZKProof.commitment zkProof \<and>
    getCircuit env purpose' (code zkProof) = Some circ \<and>
    decode_fields env (zkproof zkProof) = Inl e \<longrightarrow>
      run = (stages_upto DecodePayload, Inl e)) \<and>
   (getDID env prover = Some d \<and> getZKCredential env d purpose' = Some zkCred \<and>
    didEqual env (did zkCred) d \<and> purpose zkCred = purpose' \<and>
    ZKCredential.commitment zkCred = ZKProof.commitment zkProof \<and>
    getCircuit env purpose' (code zkProof) = Some circ \<and>
    decode_fields env (zkproof zkProof) = Inr fs \<longrightarrow>
      run = (stages_upto PredicateEvaluation, Inr (verify circ fs)))"
proof (intro conjI impI; (elim conjE)?)
  show "case run of
      (tr, Inr b) \<Rightarrow> tr = all_stages \<and> verifyZKProof env zkProof prover purpose' = Inr b
    | (tr, Inl e) \<Rightarrow>
        (\<exists>s. failing_stage e = Some s \<and> tr = stages_upto s) \<and>
        verifyZKProof env zkProof prover purpose' = Inl e"
    unfolding run_def
    by (auto simp: verifyZKProof_traced_def verifyZKProof_def Let_def stages_upto_simps
          all_stages_def
        split: option.splits sum.splits dest: decode_fields_error)
qed (simp_all add: run_def verifyZKProof_traced_def verifyZKProof_def stages_upto_simps
       all_stages_def)

theorem verify_stage_order_witness:
  "verifyZKProof_traced loose_env
     \<lparr>code = ''AGE_GTE_18'', zkproof = ''eyJhZ2UiOjI1fQ=='', commitment = ''C1''\<rparr>
     ''0xabc'' ''income-check''
   = ([ResolveDID, ResolveCredential, IdentityBinding, PurposeBinding], Inl PurposeMismatch) \<and>
   verifyZKProof_traced demo_env
     \<lparr>code = ''AGE_GTE_18'', zkproof = ''eyJhZ2UiOjI1fQ=='', commitment = ''C1''\<rparr>
     ''0xabc'' ''age-check''
   = ([ResolveDID, ResolveCredential, IdentityBinding, PurposeBinding, CommitmentBinding,
       CircuitResolution, DecodePayload, PredicateEvaluation], Inr True)"
proof -
  let ?p = "\<lparr>code = ''AGE_GTE_18'', zkproof = ''eyJhZ2UiOjI1fQ=='', commitment = ''C1''\<rparr>"
  have h: "getDID loose_env ''0xabc'' = Some ''did:ex:1'' \<and>
     getZKCredential loose_env ''did:ex:1'' ''income-check'' = Some age_cred \<and>
     didEqual loose_env (did age_cred) ''did:ex:1'' \<and> purpose age_cred \<noteq> ''income-check''"
    by (simp add: loose_env_def demo_env_def age_cred_def)
  have k: "getDID demo_env ''0xabc'' = Some ''did:ex:1'' \<and>
     getZKCredential demo_env ''did:ex:1'' ''age-check'' = Some age_cred \<and>
     didEqual demo_env (did age_cred) ''did:ex:1'' \<and> purpose age_cred = ''age-check'' \<and>
     ZKCredential.commitment age_cred = ZKProof.commitment ?p \<and>
     getCircuit demo_env ''age-check'' (code ?p) = Some age_circuit \<and>
     decode_fields demo_env (zkproof ?p) = Inr [(''age'', JNumber 25)]"
    by (simp add: demo_env_def age_cred_def decode_fields_def fields_of_entries_def Map_set_def)
  have "verifyZKProof_traced loose_env ?p ''0xabc'' ''income-check''
          = (stages_upto PurposeBinding, Inl PurposeMismatch)"
    using verify_stage_order [of loose_env ?p "''0xabc''" "''income-check''"
        "''did:ex:1''" age_cred] h
    by blast
  moreover have "verifyZKProof_traced demo_env ?p ''0xabc'' ''age-check''
          = (stages_upto PredicateEvaluation, Inr (verify age_circuit [(''age'', JNumber 25)]))"
    using verify_stage_order [of demo_env ?p "''0xabc''" "''age-check''"
        "''did:ex:1''" age_cred _ age_circuit _ "[(''age'', JNumber 25)]"] k
    by blast
  ultimately show ?thesis
    by (simp add: stages_upto_simps all_stages_def age_circuit_def Map_get_def)
qed

section \<open>The commitment binding\<close>

text \<open>
  Claim C3. When the prover's DID and the credential for that DID and the given purpose
  resolve and pass the identity and purpose checks, a proof whose commitment differs from
  the credential's commitment fails with \<open>CommitmentMismatch\<close>, whatever its code and
  its field payload are.
\<close>

theorem commitment_mismatch:
  assumes "getDID env prover = Some d"
    and "getZKCredential env d purpose' = Some zkCred"
    and "didEqual env (did zkCred) d"
    and "purpose zkCred = purpose'"
    and "ZKCredential.commitment zkCred \<noteq> cm"
  shows "verifyZKProof env \<lparr>code = c, zkproof = payload, commitment = cm\<rparr> prover purpose'
           = Inl CommitmentMismatch"
  using assms by (simp add: verifyZKProof_def)

text \<open>
  The payload of the witness satisfies the predicate: with the right commitment the
  same proof verifies.
\<close>

theorem commitment_mismatch_witness:
  "verifyZKProof demo_env \<lparr>code = ''AGE_GTE_18'', zkproof = ''eyJhZ2UiOjI1fQ=='', commitment = ''C2''\<rparr>
     ''0xabc'' ''age-check'' = Inl CommitmentMismatch \<and>
   verifyZKProof demo_env \<lparr>code = ''AGE_GTE_18'', zkproof = ''eyJhZ2UiOjI1fQ=='', commitment = ''C1''\<rparr>
     ''0xabc'' ''age-check'' = Inr True"
proof -
  have "verifyZKProof demo_env
          \<lparr>code = ''AGE_GTE_18'', zkproof = ''eyJhZ2UiOjI1fQ=='', commitment = ''C2''\<rparr>
          ''0xabc'' ''age-check'' = Inl CommitmentMismatch"
    by (rule commitment_mismatch [where d = "''did:ex:1''" and zkCred = age_cred])
       (simp_all add: demo_env_def age_cred_def)
  moreover have "verifyZKProof demo_env
          \<lparr>code = ''AGE_GTE_18'', zkproof = ''eyJhZ2UiOjI1fQ=='', commitment = ''C1''\<rparr>
          ''0xabc'' ''age-check'' = Inr True"
    by (simp add: verifyZKProof_def decode_fields_def demo_env_def age_cred_def age_circuit_def
          fields_of_entries_def Map_set_def Map_get_def)
  ultimately show ?thesis by simp
qed

section \<open>Generation\<close>

text \<open>
  Claim C4. When the registry returns a circuit for the credential's purpose and the
  code, and that circuit's \<open>toCode()\<close> is the code, generation succeeds with a proof
  that carries the credential's commitment and the given code.
\<close>

theorem generate_succeeds:
  assumes "getCircuit env (purpose zkCred) code' = Some circ"
    and "toCode circ = code'"
  shows "\<exists>zkProof. generateZKProof env zkCred code' = Inr zkProof \<and>
           ZKProof.commitment zkProof = ZKCredential.commitment zkCred \<and>
           code zkProof = code'"
  using assms by (simp add: generateZKProof_def callApi_def)

theorem generate_succeeds_witness:
  "\<exists>zkProof. generateZKProof demo_env age_cred ''AGE_GTE_18'' = Inr zkProof \<and>
      ZKProof.commitment zkProof = ''C1'' \<and> code zkProof = ''AGE_GTE_18''"
proof -
  have c: "getCircuit demo_env (purpose age_cred) ''AGE_GTE_18'' = Some age_circuit"
    by (simp add: demo_env_def age_cred_def)
  have t: "toCode age_circuit = ''AGE_GTE_18''"
    by (simp add: age_circuit_def)
  from generate_succeeds [OF c t] show ?thesis
    by (simp add: age_cred_def)
qed

text \<open>
  Claim C5. When the registry returns a circuit whose \<open>toCode()\<close> is not the given
  code, generation fails with \<open>CircuitCodeMismatch\<close> and returns no proof.
\<close>

theorem generate_code_mismatch:
  assumes "getCircuit env (purpose zkCred) code' = Some circ"
    and "code' \<noteq> toCode circ"
  shows "generateZKProof env zkCred code' = Inl (CircuitCodeMismatch code' (toCode circ)) \<and>
         (\<forall>zkProof. generateZKProof env zkCred code' \<noteq> Inr zkProof)"
  using assms by (simp add: generateZKProof_def callApi_def)

theorem generate_code_mismatch_witness:
  "generateZKProof demo_env age_cred ''AGE_GTE_18_V0'' =
     Inl (CircuitCodeMismatch ''AGE_GTE_18_V0'' ''AGE_GTE_18'')"
proof -
  have c: "getCircuit demo_env (purpose age_cred) ''AGE_GTE_18_V0'' = Some age_circuit"
    by (simp add: demo_env_def age_cred_def)
  have t: "''AGE_GTE_18_V0'' \<noteq> toCode age_circuit"
    by (simp add: age_circuit_def)
  from generate_code_mismatch [OF c t] show ?thesis
    by (simp add: age_circuit_def)
qed

text \<open>
  Claim C8. Generation does no encoding: the payload of a generated proof is the
  credential's stored payload, unchanged, and generation does not depend on the Base64
  and JSON decoders.
\<close>

theorem generate_payload_verbatim:
  assumes "generateZKProof env zkCred code' = Inr zkProof"
  shows "zkproof zkProof = credential zkCred \<and>
         generateZKProof (env\<lparr>Base64_decode := b64, JSON_parse := parse\<rparr>) zkCred code'
           = Inr zkProof"
  using assms
  by (auto simp: generateZKProof_def callApi_def split: option.splits if_splits)

theorem generate_payload_verbatim_witness:
  "zkproof \<lparr>code = ''AGE_GTE_18'', zkproof = ''eyJhZ2UiOjI1fQ=='', commitment = ''C1''\<rparr>
     = credential age_cred"
proof -
  have g: "generateZKProof demo_env age_cred ''AGE_GTE_18'' =
     Inr \<lparr>code = ''AGE_GTE_18'', zkproof = ''eyJhZ2UiOjI1fQ=='', commitment = ''C1''\<rparr>"
    by (simp add: generateZKProof_def callApi_def demo_env_def age_cred_def age_circuit_def)
  from generate_payload_verbatim [OF g] show ?thesis by simp
qed

section \<open>Failures are errors, never the answer \<open>false\<close>\<close>

text \<open>
  Claim C6. \<open>verifyZKProof\<close> returns a boolean only when every stage before the
  predicate evaluation has passed: the DID and the credential resolve, the identity,
  purpose and commitment checks hold, the circuit resolves and the payload decodes; the
  boolean is then the circuit's verdict on the decoded fields. So a failed stage never
  shows up as \<open>false\<close>. In particular a proof with an undecodable payload yields no
  boolean at all, and when the six stages before the decoding pass it fails with
  \<open>PayloadDecodeError\<close>.
\<close>

theorem verify_false_is_predicate_false:
  "(verifyZKProof env zkProof prover purpose' = Inr b \<longrightarrow>
      (\<exists>d zkCred circ fs.
         getDID env prover = Some d \<and>
         getZKCredential env d purpose' = Some zkCred \<and>
         didEqual env (did zkCred) d \<and>
         purpose zkCred = purpose' \<and>
         ZKCredential.commitment zkCred = ZKProof.commitment zkProof \<and>
         getCircuit env purpose' (code zkProof) = Some circ \<and>
         decode_fields env (zkproof zkProof) = Inr fs \<and>
         b = verify circ fs)) \<and>
   (undecodable env (zkproof zkProof) \<longrightarrow>
      (\<forall>b'. verifyZKProof env zkProof prover purpose' \<noteq> Inr b') \<and>
      (\<forall>d zkCred circ.
         getDID env prover = Some d \<and>
         getZKCredential env d purpose' = Some zkCred \<and>
         didEqual env (did zkCred) d \<and>
         purpose zkCred = purpose' \<and>
         ZKCredential.commitment zkCred = ZKProof.commitment zkProof \<and>
         getCircuit env purpose' (code zkProof) = Some circ \<longrightarrow>
         (\<exists>k. verifyZKProof env zkProof prover purpose' = Inl (PayloadDecodeError k))))"
proof (intro conjI impI allI)
  assume "verifyZKProof env zkProof prover purpose' = Inr b"
  then show "\<exists>d zkCred circ fs.
         getDID env prover = Some d \<and>
         getZKCredential env d purpose' = Some zkCred \<and>
         didEqual env (did zkCred) d \<and>
         purpose zkCred = purpose' \<and>
         ZKCredential.commitment zkCred = ZKProof.commitment zkProof \<and>
         getCircuit env purpose' (code zkProof) = Some circ \<and>
         decode_fields env (zkproof zkProof) = Inr fs \<and>
         b = verify circ fs"
    by (auto simp: verifyZKProof_def split: option.splits if_splits sum.splits)
next
  assume u: "undecodable env (zkproof zkProof)"
  then obtain k where k: "decode_fields env (zkproof zkProof) = Inl (PayloadDecodeError k)"
    using undecodable_decode_fields by blast
  {
    fix b'
    from k show "verifyZKProof env zkProof prover purpose' \<noteq> Inr b'"
      by (auto simp: verifyZKProof_def split: option.splits if_splits sum.splits)
  }
  fix d zkCred circ
  assume "getDID env prover = Some d \<and>
         getZKCredential env d purpose' = Some zkCred \<and>
         didEqual env (did zkCred) d \<and>
         purpose zkCred = purpose' \<and>
         ZKCredential.commitment zkCred = ZKProof.commitment zkProof \<and>
         getCircuit env purpose' (code zkProof) = Some circ"
  with k show "\<exists>k. verifyZKProof env zkProof prover purpose' = Inl (PayloadDecodeError k)"
    by (simp add: verifyZKProof_def)
qed

text \<open>
  Two instances: a decodable payload with age 10, where \<open>false\<close> is the predicate's
  verdict, and the payload \<open>{age\<close>, which is not JSON.
\<close>

theorem verify_false_is_predicate_false_witness:
  "verifyZKProof demo_env \<lparr>code = ''AGE_GTE_18'', zkproof = ''eyJhZ2UiOjEwfQ=='', commitment = ''C1''\<rparr>
     ''0xabc'' ''age-check'' = Inr False \<and>
   decode_fields demo_env ''eyJhZ2UiOjEwfQ=='' = Inr [(''age'', JNumber 10)] \<and>
   undecodable demo_env ''e2FnZQ=='' \<and>
   verifyZKProof demo_env \<lparr>code = ''AGE_GTE_18'', zkproof = ''e2FnZQ=='', commitment = ''C1''\<rparr>
     ''0xabc'' ''age-check'' = Inl (PayloadDecodeError SyntaxError)"
proof -
  let ?p = "\<lparr>code = ''AGE_GTE_18'', zkproof = ''eyJhZ2UiOjEwfQ=='', commitment = ''C1''\<rparr>"
  let ?q = "\<lparr>code = ''AGE_GTE_18'', zkproof = ''e2FnZQ=='', commitment = ''C1''\<rparr>"
  have d: "decode_fields demo_env ''eyJhZ2UiOjEwfQ=='' = Inr [(''age'', JNumber 10)]"
    by (simp add: decode_fields_def demo_env_def fields_of_entries_def Map_set_def)
  have v: "verifyZKProof demo_env ?p ''0xabc'' ''age-check'' = Inr False"
    by (simp add: verifyZKProof_def decode_fields_def demo_env_def age_cred_def age_circuit_def
          fields_of_entries_def Map_set_def Map_get_def)
  have u: "undecodable demo_env (zkproof ?q)"
    by (simp add: undecodable_def demo_env_def)
  have s: "getDID demo_env ''0xabc'' = Some ''did:ex:1'' \<and>
         getZKCredential demo_env ''did:ex:1'' ''age-check'' = Some age_cred \<and>
         didEqual demo_env (did age_cred) ''did:ex:1'' \<and>
         purpose age_cred = ''age-check'' \<and>
         ZKCredential.commitment age_cred = ZKProof.commitment ?q \<and>
         getCircuit demo_env ''age-check'' (code ?q) = Some age_circuit"
    by (simp add: demo_env_def age_cred_def)
  from verify_false_is_predicate_false [of demo_env ?p "''0xabc''" "''age-check''" False] v
  have "\<exists>fs. decode_fields demo_env (zkproof ?p) = Inr fs \<and> False = verify age_circuit fs"
    by (auto simp: demo_env_def)
  moreover
  from verify_false_is_predicate_false [of demo_env ?q "''0xabc''" "''age-check''" False] u s
  obtain k where "verifyZKProof demo_env ?q ''0xabc'' ''age-check'' = Inl (PayloadDecodeError k)"
    by blast
  then have "verifyZKProof demo_env ?q ''0xabc'' ''age-check'' = Inl (PayloadDecodeError SyntaxError)"
    by (simp add: verifyZKProof_def decode_fields_def demo_env_def age_cred_def split: if_splits)
  ultimately show ?thesis using v d u by simp
qed

section \<open>Signed proofs\<close>

text \<open>
  Claim C7, as amended. \<open>_verifySignedZKProof\<close> does not look at the signature: it
  verifies the body for the fixed address \<open>some_recovered_address\<close> and the given
  purpose. Its outcome is the same for every signature, and it never fails with
  \<open>SignatureRecoveryError\<close>.
\<close>

theorem verifySigned_ignores_signature:
  "verifySignedZKProof env signed purpose' =
     verifyZKProof env (body signed) ''some_recovered_address'' purpose' \<and>
   verifySignedZKProof env (signed\<lparr>signature := sig\<rparr>) purpose' =
     verifySignedZKProof env signed purpose' \<and>
   verifySignedZKProof env signed purpose' \<noteq> Inl SignatureRecoveryError"
  by (auto simp: verifySignedZKProof_def verifyZKProof_def
      split: option.splits sum.splits dest: decode_fields_error)

text \<open>
  Against claim C7 as stated: the outcome does not depend on the signature. The proof
  signed with the signature that \<open>_generateSignedZKProof\<close> attaches and the same proof
  with an empty signature, from which no address can be recovered, both verify.
\<close>

theorem verifySigned_counterexample:
  "verifySignedZKProof demo_env
     \<lparr>body = \<lparr>code = ''AGE_GTE_18'', zkproof = ''eyJhZ2UiOjI1fQ=='', commitment = ''C1''\<rparr>,
      signature = ''some_signature''\<rparr> ''age-check'' = Inr True \<and>
   verifySignedZKProof demo_env
     \<lparr>body = \<lparr>code = ''AGE_GTE_18'', zkproof = ''eyJhZ2UiOjI1fQ=='', commitment = ''C1''\<rparr>,
      signature = ''''\<rparr> ''age-check'' = Inr True"
  by (simp add: verifySignedZKProof_def verifyZKProof_def decode_fields_def demo_env_def
        age_cred_def age_circuit_def fields_of_entries_def Map_set_def Map_get_def)

section \<open>The stored payload is not consulted\<close>

text \<open>
  Claim C9. Replace the credential store by one whose records differ from the original
  ones at most in the stored payload (same DID, purpose and commitment, found for the
  same keys). Then \<open>verifyZKProof\<close> returns the same result or error for every proof,
  prover address and purpose.
\<close>

theorem verify_ignores_stored_payload:
  assumes "\<And>d p. rel_option same_but_payload (getZKCredential env d p) (store' d p)"
  shows "verifyZKProof (env\<lparr>getZKCredential := store'\<rparr>) zkProof prover purpose' =
         verifyZKProof env zkProof prover purpose'"
proof (cases "getDID env prover")
  case None
  then show ?thesis by (simp add: verifyZKProof_def)
next
  case (Some d)
  from assms [of d purpose'] show ?thesis
  proof (cases rule: option.rel_cases)
    case None
    with Some show ?thesis by (simp add: verifyZKProof_def)
  next
    case (Some c1 c2)
    with \<open>getDID env prover = Some d\<close> show ?thesis
      by (simp add: verifyZKProof_def same_but_payload_def split: option.splits)
  qed
qed

theorem verify_ignores_stored_payload_witness:
  "verifyZKProof demo_env_other_blob
     \<lparr>code = ''AGE_GTE_18'', zkproof = ''eyJhZ2UiOjI1fQ=='', commitment = ''C1''\<rparr>
     ''0xabc'' ''age-check'' = Inr True"
proof -
  have r: "\<And>d p. rel_option same_but_payload (getZKCredential demo_env d p)
        (if d = ''did:ex:1'' \<and> p = ''age-check''
         then Some (age_cred\<lparr>credential := ''eyJhZ2UiOjEwfQ==''\<rparr>) else None)"
    by (simp add: demo_env_def same_but_payload_def)
  have "verifyZKProof demo_env
     \<lparr>code = ''AGE_GTE_18'', zkproof = ''eyJhZ2UiOjI1fQ=='', commitment = ''C1''\<rparr>
     ''0xabc'' ''age-check'' = Inr True"
    by (simp add: verifyZKProof_def decode_fields_def demo_env_def age_cred_def age_circuit_def
          fields_of_entries_def Map_set_def Map_get_def)
  with verify_ignores_stored_payload [OF r] show ?thesis
    by (simp add: demo_env_other_blob_def)
qed

section \<open>Payloads that parse to a scalar\<close>

text \<open>
  Claim C10, as amended. When the six stages before the decoding pass and the payload
  Base64-decodes and JSON-parses to a number or to a boolean, \<open>verifyZKProof\<close> does not
  fail: the decoded field mapping is empty and the result is the circuit's verdict on
  the empty mapping.
\<close>

theorem scalar_payload_empty_fields:
  assumes "getDID env prover = Some d"
    and "getZKCredential env d purpose' = Some zkCred"
    and "didEqual env (did zkCred) d"
    and "purpose zkCred = purpose'"
    and "ZKCredential.commitment zkCred = ZKProof.commitment zkProof"
    and "getCircuit env purpose' (code zkProof) = Some circ"
    and "Base64_decode env (zkproof zkProof) = Some decoded"
    and "JSON_parse env decoded = Some credObj"
    and "(\<exists>n. credObj = JNumber n) \<or> (\<exists>b. credObj = JBool b)"
  shows "decode_fields env (zkproof zkProof) = Inr [] \<and>
         verifyZKProof env zkProof prover purpose' = Inr (verify circ [])"
  using assms
  by (auto simp: verifyZKProof_def decode_fields_def fields_of_entries_def)

theorem scalar_payload_empty_fields_witness:
  "verifyZKProof demo_env \<lparr>code = ''HAS_FIELD_0'', zkproof = ''NQ=='', commitment = ''C1''\<rparr>
     ''0xabc'' ''age-check'' = Inr False"
proof -
  let ?p = "\<lparr>code = ''HAS_FIELD_0'', zkproof = ''NQ=='', commitment = ''C1''\<rparr>"
  have "decode_fields demo_env (zkproof ?p) = Inr [] \<and>
        verifyZKProof demo_env ?p ''0xabc'' ''age-check'' = Inr (verify index_circuit [])"
    by (rule scalar_payload_empty_fields [where d = "''did:ex:1''" and zkCred = age_cred
          and decoded = "''5''" and credObj = "JNumber 5"])
       (simp_all add: demo_env_def age_cred_def)
  then show ?thesis by (simp add: index_circuit_def Map_get_def)
qed

text \<open>
  Against claim C10 as stated: a string is a scalar too. The payload \<open>ImEi\<close> is the
  Base64 text of the JSON string \<open>"a"\<close>; \<open>Object.entries\<close> gives it the property
  \<open>0\<close>, so the predicate is evaluated on a mapping with one field and the circuit that
  asks for the field \<open>0\<close> answers \<open>true\<close>, whereas it answers \<open>false\<close> on the empty
  mapping. The payload \<open>bnVsbA==\<close> is the Base64 text of \<open>null\<close>, on which
  \<open>Object.entries\<close> throws: the verification fails while decoding.
\<close>

theorem scalar_payload_counterexample:
  "Base64_decode demo_env ''ImEi'' = Some [CHR 0x22, CHR ''a'', CHR 0x22] \<and>
   JSON_parse demo_env [CHR 0x22, CHR ''a'', CHR 0x22] = Some (JString ''a'') \<and>
   decode_fields demo_env ''ImEi'' = Inr [(''0'', JString ''a'')] \<and>
   verifyZKProof demo_env \<lparr>code = ''HAS_FIELD_0'', zkproof = ''ImEi'', commitment = ''C1''\<rparr>
     ''0xabc'' ''age-check'' = Inr True \<and>
   verify index_circuit [] = False \<and>
   verifyZKProof demo_env \<lparr>code = ''HAS_FIELD_0'', zkproof = ''bnVsbA=='', commitment = ''C1''\<rparr>
     ''0xabc'' ''age-check'' = Inl (PayloadDecodeError TypeError)"
  by (simp add: verifyZKProof_def decode_fields_def demo_env_def age_cred_def index_circuit_def
        fields_of_entries_def Map_set_def Map_get_def enumerate_eq_zip index_key.simps)

end
